theory Spec2Isabelle
  imports Main "HOL-Library.Word" "HOL-Library.AList"
begin

unbundle bit_operations_syntax

section \<open>Python values\<close>

text \<open>
  The handlers of \<^verbatim>\<open>byemail/httpserver.py\<close> shuffle JSON-like Python objects between the
  storage layer and the HTTP response. A \<^verbatim>\<open>datetime.datetime\<close> is its seven fields
  year, month, day, hour, minute, second, microsecond, and what \<^verbatim>\<open>utcoffset()\<close>
  returns: \<open>None\<close> for a naive datetime, the offset from UTC in microseconds for an
  aware one.
\<close>

datatype datetime = Datetime nat nat nat nat nat nat nat "int option"

text \<open>
  A dict keeps its keys in insertion order, so it is an association list with distinct
  keys: \<^verbatim>\<open>d.get(k)\<close> is \<open>map_of d k\<close> and \<^verbatim>\<open>d[k] = v\<close> is \<open>AList.update k v d\<close>,
  which overwrites in place or appends.
\<close>

datatype pyval =
    PNone
  | PBool bool
  | PInt int
  | PStr string
  | PDatetime datetime
  | PList "pyval list"
  | PDict "(string \<times> pyval) list"

type_synonym pydict = "(string \<times> pyval) list"

text \<open>The exceptions the handlers can raise, by their Python class.\<close>

datatype error =
    Forbidden string
  | KeyError string
  | TypeError
  | ValueError
  | AttributeError

text \<open>\<^verbatim>\<open>v[k]\<close> with a string key: only a dict can be subscripted by a string.\<close>

fun subscript :: "pyval \<Rightarrow> string \<Rightarrow> error + pyval" where
  "subscript (PDict d) k = (case map_of d k of None \<Rightarrow> Inl (KeyError k) | Some v \<Rightarrow> Inr v)"
| "subscript _ k = Inl TypeError"

text \<open>\<^verbatim>\<open>v[k] = x\<close>, reached in the handlers only after \<^verbatim>\<open>v[...]\<close> has been read.\<close>

fun setitem :: "pyval \<Rightarrow> string \<Rightarrow> pyval \<Rightarrow> error + pyval" where
  "setitem (PDict d) k x = Inr (PDict (AList.update k x d))"
| "setitem _ k x = Inl TypeError"

text \<open>
  \<^verbatim>\<open>for m in v\<close>: a list yields its elements, a dict its keys, a string its characters;
  anything else is not iterable.
\<close>

fun py_iter :: "pyval \<Rightarrow> error + pyval list" where
  "py_iter (PList xs) = Inr xs"
| "py_iter (PDict d) = Inr (map (\<lambda>kv. PStr (fst kv)) d)"
| "py_iter (PStr s) = Inr (map (\<lambda>c. PStr [c]) s)"
| "py_iter _ = Inl TypeError"

text \<open>Truth value of an object, as \<^verbatim>\<open>if x:\<close> and \<^verbatim>\<open>not x\<close> test it.\<close>

fun truthy :: "pyval \<Rightarrow> bool" where
  "truthy PNone = False"
| "truthy (PBool b) = b"
| "truthy (PInt i) = (i \<noteq> 0)"
| "truthy (PStr s) = (s \<noteq> [])"
| "truthy (PDatetime d) = True"
| "truthy (PList xs) = (xs \<noteq> [])"
| "truthy (PDict d) = (d \<noteq> [])"

text \<open>A loop body that may raise, run over a list: the first exception ends the loop.\<close>

fun map_result :: "('a \<Rightarrow> error + 'b) \<Rightarrow> 'a list \<Rightarrow> error + 'b list" where
  "map_result f [] = Inr []"
| "map_result f (x # xs) =
     (case f x of
        Inl e \<Rightarrow> Inl e
      | Inr y \<Rightarrow> (case map_result f xs of Inl e \<Rightarrow> Inl e | Inr ys \<Rightarrow> Inr (y # ys)))"

text \<open>Whether a datetime occurs anywhere in an object.\<close>

fun contains_datetime :: "pyval \<Rightarrow> bool" where
  "contains_datetime (PDatetime d) = True"
| "contains_datetime (PList xs) = list_ex contains_datetime xs"
| "contains_datetime (PDict d) = list_ex (\<lambda>kv. contains_datetime (snd kv)) d"
| "contains_datetime v = False"

subsection \<open>Rendering numbers and dates\<close>

definition digit_char :: "nat \<Rightarrow> char" where
  "digit_char n = ''0123456789abcdef'' ! n"

fun dec_nat :: "nat \<Rightarrow> string" where
  "dec_nat n = (if n < 10 then [digit_char n] else dec_nat (n div 10) @ [digit_char (n mod 10)])"

declare dec_nat.simps [simp del]

definition dec_int :: "int \<Rightarrow> string" where
  "dec_int i = (if i < 0 then CHR ''-'' # dec_nat (nat (- i)) else dec_nat (nat i))"

definition zero_pad :: "nat \<Rightarrow> nat \<Rightarrow> string" where
  "zero_pad w n = replicate (w - length (dec_nat n)) CHR ''0'' @ dec_nat n"

text \<open>
  The UTC offset as \<^verbatim>\<open>isoformat\<close> appends it: nothing for a naive datetime, otherwise
  the sign and \<^verbatim>\<open>HH:MM\<close>, followed by \<^verbatim>\<open>:SS\<close> when the offset is not a whole number
  of minutes and by \<^verbatim>\<open>.ffffff\<close> when it is not a whole number of seconds.
\<close>

definition format_offset :: "int option \<Rightarrow> string" where
  "format_offset off =
     (case off of
        None \<Rightarrow> []
      | Some x \<Rightarrow>
          (let a = \<bar>x\<bar>;
               hh = nat (a div 3600000000);
               mm = nat ((a mod 3600000000) div 60000000);
               ss = nat ((a mod 60000000) div 1000000);
               us = nat (a mod 1000000)
           in (if x < 0 then ''-'' else ''+'') @ zero_pad 2 hh @ '':'' @ zero_pad 2 mm @
              (if ss \<noteq> 0 \<or> us \<noteq> 0
               then '':'' @ zero_pad 2 ss @ (if us \<noteq> 0 then ''.'' @ zero_pad 6 us else [])
               else [])))"

text \<open>
  \<^verbatim>\<open>datetime.isoformat(sep)\<close>: \<^verbatim>\<open>YYYY-MM-DDTHH:MM:SS\<close>, followed by \<^verbatim>\<open>.ffffff\<close> when the
  microsecond is not 0, and by the UTC offset of an aware datetime.
\<close>

fun isoformat_sep :: "char \<Rightarrow> datetime \<Rightarrow> string" where
  "isoformat_sep sep (Datetime y mo d h mi s us off) =
     zero_pad 4 y @ ''-'' @ zero_pad 2 mo @ ''-'' @ zero_pad 2 d @ [sep] @
     zero_pad 2 h @ '':'' @ zero_pad 2 mi @ '':'' @ zero_pad 2 s @
     (if us \<noteq> 0 then ''.'' @ zero_pad 6 us else []) @ format_offset off"

definition isoformat :: "datetime \<Rightarrow> string" where
  "isoformat d = isoformat_sep CHR ''T'' d"

section \<open>Session keys\<close>

text \<open>
  \<^verbatim>\<open>uuid.uuid4()\<close> builds a UUID from 16 random bytes, read as a big-endian 128-bit
  integer, and stamps the RFC 4122 variant and the version 4 into it:
  \<^verbatim>\<open>
  int &= ~(0xc000 << 48); int |= 0x8000 << 48
  int &= ~(0xf000 << 64); int |= version << 76
  \<close>
  \<^verbatim>\<open>.hex\<close> is \<^verbatim>\<open>'%032x' % int\<close>. The random bytes are the argument of the model.
\<close>

definition uuid4 :: "128 word \<Rightarrow> 128 word" where
  "uuid4 r =
     (((r AND NOT (push_bit 48 0xc000)) OR push_bit 48 0x8000)
        AND NOT (push_bit 64 0xf000)) OR push_bit 76 4"

definition hex :: "128 word \<Rightarrow> string" where
  "hex w = map (\<lambda>i. digit_char (unat (drop_bit (4 * (31 - i)) w AND 0xf))) [0..<32]"

definition gen_session_key :: "128 word \<Rightarrow> string" where
  "gen_session_key r = hex (uuid4 r)"

section \<open>Requests, responses and collaborators\<close>

text \<open>
  What a handler reads of a Sanic request: the cookies, \<^verbatim>\<open>request['session']\<close>,
  \<^verbatim>\<open>request.json\<close> and the query arguments (\<^verbatim>\<open>request.args.get\<close> gives the first
  value of a name).
\<close>

record request =
  cookies :: "(string \<times> string) list"
  session :: pydict
  request_json :: pyval
  args :: "(string \<times> string) list"

text \<open>
  A response is what the handler passed to \<^verbatim>\<open>json\<close>, \<^verbatim>\<open>stream\<close> or \<^verbatim>\<open>redirect\<close>,
  and the cookies set on it.
\<close>

datatype body = Json pyval | Stream pyval pyval | Redirect string

record response =
  body :: body
  response_cookies :: "(string \<times> string) list"

definition stream :: "pyval \<Rightarrow> pyval \<Rightarrow> response" where
  "stream content content_type = \<lparr>body = Stream content content_type, response_cookies = []\<rparr>"

definition redirect :: "string \<Rightarrow> response" where
  "redirect to = \<lparr>body = Redirect to, response_cookies = []\<rparr>"

text \<open>An account, as the handlers see it: \<open>to_json\<close> is what \<^verbatim>\<open>account.to_json()\<close> returns.\<close>

record account =
  name :: string
  address :: string
  to_json :: pyval

text \<open>
  The modules the handlers call are not part of the sources: \<^verbatim>\<open>byemail.storage\<close>,
  \<^verbatim>\<open>byemail.account\<close>, \<^verbatim>\<open>byemail.smtp\<close>, \<^verbatim>\<open>byemail.mailutils\<close>, and the
  standard library's \<^verbatim>\<open>mimetypes\<close>, \<^verbatim>\<open>repr\<close> and \<^verbatim>\<open>int\<close>, and the JSON encoder.
  They are the fields of an
  environment. The storage and the mail sender work on a state \<open>'st\<close>, which every
  call may read and change; a call is visible in the state it hands back. Objects are
  values: what a storage call returns is a copy, and a change to it reaches the storage
  only through a later call.
\<close>

record 'st env =
  get_user_session :: "'st \<Rightarrow> string \<Rightarrow> pydict \<times> 'st"
  save_user_session :: "'st \<Rightarrow> string \<Rightarrow> pydict \<Rightarrow> 'st"
  get_mailboxes :: "'st \<Rightarrow> account \<Rightarrow> pyval \<times> 'st"
  get_mailbox :: "'st \<Rightarrow> string \<Rightarrow> pyval \<times> 'st"
  get_mail :: "'st \<Rightarrow> string \<Rightarrow> pyval \<times> 'st"
  update_mail :: "'st \<Rightarrow> pyval \<Rightarrow> 'st"
  get_mail_attachment :: "'st \<Rightarrow> string \<Rightarrow> int \<Rightarrow> (pyval \<times> pyval) \<times> 'st"
  storage_contacts_search :: "'st \<Rightarrow> account \<Rightarrow> string \<Rightarrow> pyval \<times> 'st"
  authenticate :: "pyval \<Rightarrow> account option"
  get :: "pyval \<Rightarrow> account option"
  parse_email :: "pyval \<Rightarrow> pyval"
  make_msg :: "pyval \<Rightarrow> pyval \<Rightarrow> pyval \<Rightarrow> pyval list \<Rightarrow> pyval list \<Rightarrow> pyval \<Rightarrow> pyval"
  send_mail :: "'st \<Rightarrow> account \<Rightarrow> pyval \<Rightarrow> pyval \<Rightarrow> pyval list \<Rightarrow> pyval \<times> 'st"
  resend_mail :: "'st \<Rightarrow> account \<Rightarrow> pyval \<Rightarrow> pyval list \<Rightarrow> pyval \<times> 'st"
  guess_extension :: "string \<Rightarrow> string option"
  repr :: "pyval \<Rightarrow> string"
  int_of_str :: "string \<Rightarrow> int option"
  encodes_datetime :: bool

text \<open>
  \<^verbatim>\<open>sanic.response.json(body)\<close> serialises \<open>body\<close> at once, with the encoder Sanic
  found when it was imported: \<^verbatim>\<open>ujson\<close> where it is installed, the standard library's
  \<^verbatim>\<open>json\<close> otherwise. The standard encoder raises \<^verbatim>\<open>TypeError\<close> on a datetime, and
  so does a recent \<^verbatim>\<open>ujson\<close>; older releases of \<^verbatim>\<open>ujson\<close> render it. The sources do
  not fix the encoder, so the environment says whether it takes a datetime. Every other
  object of the model is serialised by each of them.
\<close>

definition json :: "'st env \<Rightarrow> pyval \<Rightarrow> error + response" where
  "json E v =
     (if contains_datetime v \<and> \<not> encodes_datetime E then Inl TypeError
      else Inr \<lparr>body = Json v, response_cookies = []\<rparr>)"

text \<open>
  \<^verbatim>\<open>str(v)\<close>, as \<^verbatim>\<open>'{}'.format(v)\<close> renders an object. Containers render by
  \<^verbatim>\<open>repr\<close>.
\<close>

fun py_str :: "'st env \<Rightarrow> pyval \<Rightarrow> string" where
  "py_str E (PStr s) = s"
| "py_str E (PInt i) = dec_int i"
| "py_str E PNone = ''None''"
| "py_str E (PBool b) = (if b then ''True'' else ''False'')"
| "py_str E (PDatetime d) = isoformat_sep CHR '' '' d"
| "py_str E v = repr E v"

text \<open>\<^verbatim>\<open>v.get(k)\<close>: only a dict has the method.\<close>

fun py_get :: "pyval \<Rightarrow> string \<Rightarrow> pyval \<Rightarrow> error + pyval" where
  "py_get (PDict d) k dflt = Inr (case map_of d k of None \<Rightarrow> dflt | Some v \<Rightarrow> v)"
| "py_get _ k dflt = Inl AttributeError"

text \<open>\<^verbatim>\<open>mimetypes.guess_extension(t)\<close> starts with \<^verbatim>\<open>t.lower()\<close>, which only a string has.\<close>

fun py_guess_extension :: "'st env \<Rightarrow> pyval \<Rightarrow> error + string option" where
  "py_guess_extension E (PStr t) = Inr (guess_extension E t)"
| "py_guess_extension E _ = Inl AttributeError"

text \<open>
  A \<^verbatim>\<open>for\<close> loop changes the dicts of a list in place. After the loop a list holds
  the changed elements; the keys of a dict and the characters of a string cannot be
  changed, so such a container is as it was.
\<close>

fun after_loop :: "pyval \<Rightarrow> pyval list \<Rightarrow> pyval" where
  "after_loop (PList xs) ys = PList ys"
| "after_loop v ys = v"

text \<open>The dict \<open>v\<close> once the object under its key \<open>k\<close> has been changed in place to \<open>x\<close>.\<close>

fun changed_at :: "pyval \<Rightarrow> string \<Rightarrow> pyval \<Rightarrow> pyval" where
  "changed_at (PDict d) k x = PDict (AList.update k x d)"
| "changed_at v k x = v"

section \<open>Authentication (sanic-auth)\<close>

text \<open>
  \<^verbatim>\<open>Auth(app)\<close> keeps the user's token in the session under \<^verbatim>\<open>'_auth'\<close>, the
  default of \<^verbatim>\<open>AUTH_TOKEN_NAME\<close>. \<^verbatim>\<open>current_user\<close> reads the token and, when it is not
  \<^verbatim>\<open>None\<close>, loads the user with the registered loader, here \<^verbatim>\<open>account_manager.get\<close>.
\<close>

definition auth_session_key :: string where
  "auth_session_key = ''_auth''"

definition current_user :: "'st env \<Rightarrow> request \<Rightarrow> account option" where
  "current_user E request =
     (case map_of (session request) auth_session_key of
        None \<Rightarrow> None
      | Some token \<Rightarrow> if token = PNone then None else get E token)"

text \<open>\<^verbatim>\<open>logout_user\<close> pops the token from the request's session.\<close>

definition logout_user :: "request \<Rightarrow> request" where
  "logout_user request = request\<lparr>session := AList.delete auth_session_key (session request)\<rparr>"

definition handle_no_auth :: "request \<Rightarrow> 'st \<Rightarrow> (error + response) \<times> 'st" where
  "handle_no_auth request st = (Inl (Forbidden ''This route need authentification''), st)"

text \<open>
  \<^verbatim>\<open>@auth.login_required(user_keyword='account', handle_no_auth=handle_no_auth)\<close>: without
  a current user the request goes to \<^verbatim>\<open>handle_no_auth\<close>, otherwise to the route with
  the user.
\<close>

definition login_required ::
  "'st env \<Rightarrow> (request \<Rightarrow> 'st \<Rightarrow> (error + response) \<times> 'st) \<Rightarrow>
   (request \<Rightarrow> account \<Rightarrow> 'st \<Rightarrow> (error + response) \<times> 'st) \<Rightarrow>
   request \<Rightarrow> 'st \<Rightarrow> (error + response) \<times> 'st" where
  "login_required E no_auth route request st =
     (case current_user E request of
        None \<Rightarrow> no_auth request st
      | Some user \<Rightarrow> route request user st)"

section \<open>Middleware\<close>

definition add_session_to_request :: "'st env \<Rightarrow> request \<Rightarrow> 'st \<Rightarrow> request \<times> 'st" where
  "add_session_to_request E request st =
     (case map_of (cookies request) ''session_key'' of
        None \<Rightarrow> (request\<lparr>session := []\<rparr>, st)
      | Some session_key \<Rightarrow>
          if session_key \<noteq> [] then
            (let (s, st1) = get_user_session E st session_key
             in (request\<lparr>session := s\<rparr>, st1))
          else (request\<lparr>session := []\<rparr>, st))"

definition add_session_key_to_response :: "request \<Rightarrow> response \<Rightarrow> 128 word \<Rightarrow> response" where
  "add_session_key_to_response request response r =
     (if map_of (cookies request) ''session_key'' = None \<and>
         map_of (response_cookies response) ''session_key'' = None
      then response\<lparr>response_cookies :=
             AList.update ''session_key'' (gen_session_key r) (response_cookies response)\<rparr>
      else response)"

section \<open>Route handlers\<close>

text \<open>
  Every handler takes the storage state and returns the state it leaves, next to the
  response or the exception raised. \<open>r\<close> stands for the random bytes a call of
  \<^verbatim>\<open>gen_session_key\<close> draws.
\<close>

definition login :: "'st env \<Rightarrow> request \<Rightarrow> 128 word \<Rightarrow> 'st \<Rightarrow> (error + response) \<times> 'st" where
  "login E request r st =
     (let credentials = request_json request in
      case authenticate E credentials of
        Some acct \<Rightarrow>
          (let session_key = gen_session_key r;
               (s, st1) = get_user_session E st session_key;
               s' = AList.update auth_session_key (PStr (name acct)) s;
               st2 = save_user_session E st1 session_key s'
           in case json E (to_json acct) of
                Inl e \<Rightarrow> (Inl e, st2)
              | Inr response \<Rightarrow>
                  (Inr (response\<lparr>response_cookies :=
                          AList.update ''session_key'' session_key (response_cookies response)\<rparr>),
                   st2))
      | None \<Rightarrow> (Inl (Forbidden ''Authentification failed. Check your credentials.''), st))"

text \<open>
  \<^verbatim>\<open>logout\<close> calls no function of the storage: it works on the request alone and hands
  back the response with the request as it leaves it.
\<close>

definition logout :: "'st env \<Rightarrow> request \<Rightarrow> 128 word \<Rightarrow> (error + response) \<times> request" where
  "logout E request r =
     (let request1 = logout_user request;
          request2 = request1\<lparr>session := []\<rparr>
      in case json E (PStr ''Ok'') of
           Inl e \<Rightarrow> (Inl e, request2)
         | Inr response \<Rightarrow>
             (Inr (response\<lparr>response_cookies :=
                     AList.update ''session_key'' (gen_session_key r) (response_cookies response)\<rparr>),
              request2))"

definition account :: "'st env \<Rightarrow> request \<Rightarrow> account \<Rightarrow> error + response" where
  "account E request acct = json E (to_json acct)"

definition index :: "request \<Rightarrow> response" where
  "index request = redirect ''/index.html''"

text \<open>The body of the loop of \<^verbatim>\<open>mailboxes\<close> and \<^verbatim>\<open>mailbox\<close>, for the key \<open>k\<close>.\<close>

definition iso_field :: "string \<Rightarrow> pyval \<Rightarrow> error + pyval" where
  "iso_field k m =
     (case subscript m k of
        Inl e \<Rightarrow> Inl e
      | Inr v \<Rightarrow> (case v of PDatetime d \<Rightarrow> setitem m k (PStr (isoformat d)) | _ \<Rightarrow> Inr m))"

definition mailboxes :: "'st env \<Rightarrow> request \<Rightarrow> account \<Rightarrow> 'st \<Rightarrow> (error + response) \<times> 'st" where
  "mailboxes E request acct st =
     (let (mbxs, st1) = get_mailboxes E st acct in
      case py_iter mbxs of
        Inl e \<Rightarrow> (Inl e, st1)
      | Inr ms \<Rightarrow>
          (case map_result (iso_field ''last_message'') ms of
             Inl e \<Rightarrow> (Inl e, st1)
           | Inr ms' \<Rightarrow> (json E (after_loop mbxs ms'), st1)))"

definition mailbox :: "'st env \<Rightarrow> request \<Rightarrow> string \<Rightarrow> account \<Rightarrow> 'st \<Rightarrow> (error + response) \<times> 'st" where
  "mailbox E request mailbox_id acct st =
     (let (mailbox_to_return, st1) = get_mailbox E st mailbox_id in
      case subscript mailbox_to_return ''account'' of
        Inl e \<Rightarrow> (Inl e, st1)
      | Inr owner \<Rightarrow>
          if owner \<noteq> PStr (name acct)
          then (Inl (Forbidden ''You don't have permission to see this mailbox.''), st1)
          else
            (case subscript mailbox_to_return ''messages'' of
               Inl e \<Rightarrow> (Inl e, st1)
             | Inr messages \<Rightarrow>
                 (case py_iter messages of
                    Inl e \<Rightarrow> (Inl e, st1)
                  | Inr ms \<Rightarrow>
                      (case map_result (iso_field ''date'') ms of
                         Inl e \<Rightarrow> (Inl e, st1)
                       | Inr ms' \<Rightarrow>
                           (json E (changed_at mailbox_to_return ''messages''
                                      (after_loop messages ms')), st1)))))"

text \<open>The body of the attachment loop of \<^verbatim>\<open>mail\<close>.\<close>

definition default_filename :: "'st env \<Rightarrow> pyval \<Rightarrow> error + pyval" where
  "default_filename E att =
     (case subscript att ''type'' of
        Inl e \<Rightarrow> Inl e
      | Inr ty \<Rightarrow>
          (case py_guess_extension E ty of
             Inl e \<Rightarrow> Inl e
           | Inr guessed \<Rightarrow>
               (let guessed_ext =
                      (case guessed of
                         None \<Rightarrow> ''.bin''
                       | Some x \<Rightarrow> if x = [] then ''.bin'' else x)
                in case subscript att ''index'' of
                     Inl e \<Rightarrow> Inl e
                   | Inr idx \<Rightarrow>
                       setitem att ''filename'' (PStr (''file_'' @ py_str E idx @ guessed_ext)))))"

definition attachment_url :: "'st env \<Rightarrow> string \<Rightarrow> pyval \<Rightarrow> error + pyval" where
  "attachment_url E mail_id att =
     (case subscript att ''index'' of
        Inl e \<Rightarrow> Inl e
      | Inr idx \<Rightarrow>
          (case subscript att ''filename'' of
             Inl e \<Rightarrow> Inl e
           | Inr fn \<Rightarrow>
               setitem att ''url''
                 (PStr (''/api/mail/'' @ mail_id @ ''/attachment/'' @ py_str E idx @ ''/'' @
                        py_str E fn))))"

definition fix_attachment :: "'st env \<Rightarrow> string \<Rightarrow> pyval \<Rightarrow> error + pyval" where
  "fix_attachment E mail_id att =
     (case py_get att ''filename'' PNone of
        Inl e \<Rightarrow> Inl e
      | Inr fn \<Rightarrow>
          (case (if \<not> truthy fn then default_filename E att else Inr att) of
             Inl e \<Rightarrow> Inl e
           | Inr att1 \<Rightarrow> attachment_url E mail_id att1))"

definition mail :: "'st env \<Rightarrow> request \<Rightarrow> string \<Rightarrow> account \<Rightarrow> 'st \<Rightarrow> (error + response) \<times> 'st" where
  "mail E request mail_id acct st =
     (let (mail_to_return, st1) = get_mail E st mail_id in
      case subscript mail_to_return ''account'' of
        Inl e \<Rightarrow> (Inl e, st1)
      | Inr owner \<Rightarrow>
          if owner \<noteq> PStr (name acct)
          then (Inl (Forbidden ''You don't have permission to see this mail.''), st1)
          else
            (case iso_field ''date'' mail_to_return of
               Inl e \<Rightarrow> (Inl e, st1)
             | Inr mail1 \<Rightarrow>
                 (case subscript mail1 ''attachments'' of
                    Inl e \<Rightarrow> (Inl e, st1)
                  | Inr attachments \<Rightarrow>
                      (case py_iter attachments of
                         Inl e \<Rightarrow> (Inl e, st1)
                       | Inr atts \<Rightarrow>
                           (case map_result (fix_attachment E mail_id) atts of
                              Inl e \<Rightarrow> (Inl e, st1)
                            | Inr atts' \<Rightarrow>
                                (json E (changed_at mail1 ''attachments''
                                           (after_loop attachments atts')), st1))))))"

definition mail_mark_read ::
  "'st env \<Rightarrow> request \<Rightarrow> string \<Rightarrow> account \<Rightarrow> 'st \<Rightarrow> (error + response) \<times> 'st" where
  "mail_mark_read E request mail_id acct st =
     (let (mail_to_mark, st1) = get_mail E st mail_id in
      case subscript mail_to_mark ''account'' of
        Inl e \<Rightarrow> (Inl e, st1)
      | Inr owner \<Rightarrow>
          if owner \<noteq> PStr (name acct)
          then (Inl (Forbidden ''You don't have permission to see this mail.''), st1)
          else
            (case setitem mail_to_mark ''unread'' (PBool False) of
               Inl e \<Rightarrow> (Inl e, st1)
             | Inr marked \<Rightarrow>
                 (let st2 = update_mail E st1 marked
                  in (json E marked, st2))))"

definition mail_download_attachment ::
  "'st env \<Rightarrow> request \<Rightarrow> string \<Rightarrow> string \<Rightarrow> string \<Rightarrow> account \<Rightarrow> 'st \<Rightarrow>
   (error + response) \<times> 'st" where
  "mail_download_attachment E request mail_id att_index filename acct st =
     (case int_of_str E att_index of
        None \<Rightarrow> (Inl ValueError, st)
      | Some i \<Rightarrow>
          (let ((attachment, att_content), st1) = get_mail_attachment E st mail_id i in
           case subscript attachment ''type'' of
             Inl e \<Rightarrow> (Inl e, st1)
           | Inr ty \<Rightarrow> (Inr (stream att_content ty), st1)))"

text \<open>
  The comprehensions of \<^verbatim>\<open>sendmail\<close>:
  \<^verbatim>\<open>[parse_email(a['address']) for a in recipients]\<close> and the same with the filter
  \<^verbatim>\<open>if a['type'] == t\<close>, which is evaluated before the element.
\<close>

definition recipient_address :: "'st env \<Rightarrow> pyval \<Rightarrow> error + pyval" where
  "recipient_address E a =
     (case subscript a ''address'' of Inl e \<Rightarrow> Inl e | Inr x \<Rightarrow> Inr (parse_email E x))"

fun addresses_of_type :: "'st env \<Rightarrow> string \<Rightarrow> pyval list \<Rightarrow> error + pyval list" where
  "addresses_of_type E t [] = Inr []"
| "addresses_of_type E t (a # as) =
     (case subscript a ''type'' of
        Inl e \<Rightarrow> Inl e
      | Inr ty \<Rightarrow>
          if ty = PStr t then
            (case recipient_address E a of
               Inl e \<Rightarrow> Inl e
             | Inr x \<Rightarrow>
                 (case addresses_of_type E t as of Inl e \<Rightarrow> Inl e | Inr xs \<Rightarrow> Inr (x # xs)))
          else addresses_of_type E t as)"

definition sendmail :: "'st env \<Rightarrow> request \<Rightarrow> account \<Rightarrow> 'st \<Rightarrow> (error + response) \<times> 'st" where
  "sendmail E request acct st =
     (let data = request_json request;
          from_addr = parse_email E (PStr (address acct)) in
      case subscript data ''recipients'' of
        Inl e \<Rightarrow> (Inl e, st)
      | Inr recipients \<Rightarrow>
          (case py_iter recipients of
             Inl e \<Rightarrow> (Inl e, st)
           | Inr rs \<Rightarrow>
               (case map_result (recipient_address E) rs of
                  Inl e \<Rightarrow> (Inl e, st)
                | Inr all_addrs \<Rightarrow>
                    (case addresses_of_type E ''to'' rs of
                       Inl e \<Rightarrow> (Inl e, st)
                     | Inr tos \<Rightarrow>
                         (case addresses_of_type E ''cc'' rs of
                            Inl e \<Rightarrow> (Inl e, st)
                          | Inr ccs \<Rightarrow>
                              (case py_get data ''attachments'' (PList []) of
                                 Inl e \<Rightarrow> (Inl e, st)
                               | Inr attachments \<Rightarrow>
                                   (case subscript data ''subject'' of
                                      Inl e \<Rightarrow> (Inl e, st)
                                    | Inr subject \<Rightarrow>
                                        (case subscript data ''content'' of
                                           Inl e \<Rightarrow> (Inl e, st)
                                         | Inr content \<Rightarrow>
                                             (let msg = make_msg E subject content from_addr
                                                          tos ccs attachments;
                                                  (result, st1) =
                                                    send_mail E st acct msg from_addr all_addrs
                                              in (json E result, st1))))))))))"

definition mail_resend ::
  "'st env \<Rightarrow> request \<Rightarrow> string \<Rightarrow> account \<Rightarrow> 'st \<Rightarrow> (error + response) \<times> 'st" where
  "mail_resend E request mail_id acct st =
     (let (mail_to_resend, st1) = get_mail E st mail_id in
      case subscript mail_to_resend ''account'' of
        Inl e \<Rightarrow> (Inl e, st1)
      | Inr owner \<Rightarrow>
          if owner \<noteq> PStr (name acct)
          then (Inl (Forbidden ''You don't have permission to resend this mail.''), st1)
          else
            (let data = request_json request in
             case subscript data ''to'' of
               Inl e \<Rightarrow> (Inl e, st1)
             | Inr to \<Rightarrow>
                 (let tos = [parse_email E to];
                      (result, st2) = resend_mail E st1 acct mail_to_resend tos
                  in (json E result, st2))))"

definition contacts_search ::
  "'st env \<Rightarrow> request \<Rightarrow> account \<Rightarrow> 'st \<Rightarrow> (error + response) \<times> 'st" where
  "contacts_search E request acct st =
     (let text = (case map_of (args request) ''text'' of None \<Rightarrow> [] | Some t \<Rightarrow> t) in
      if text = [] then (json E (PList []), st)
      else
        (let (results, st1) = storage_contacts_search E st acct text
         in (json E results, st1)))"

section \<open>The application\<close>

text \<open>The routes of \<^verbatim>\<open>init_app\<close>, with the parameters the router takes from the path.\<close>

datatype route =
    Login
  | Logout
  | Account
  | Index
  | Mailboxes
  | Mailbox string
  | Mail string
  | Mail_mark_read string
  | Mail_download_attachment string string string
  | Sendmail
  | Mail_resend string
  | Contacts_search

text \<open>
  Each route with its decorators. \<^verbatim>\<open>logout\<close> is wrapped without \<^verbatim>\<open>user_keyword\<close>, so
  the user is not passed on.
\<close>

fun app_route ::
  "'st env \<Rightarrow> route \<Rightarrow> request \<Rightarrow> 128 word \<Rightarrow> 'st \<Rightarrow> (error + response) \<times> 'st" where
  "app_route E Login request r st = login E request r st"
| "app_route E Logout request r st =
     login_required E handle_no_auth
       (\<lambda>rq user s. (fst (logout E rq r), s)) request st"
| "app_route E Account request r st =
     login_required E handle_no_auth (\<lambda>rq user s. (account E rq user, s)) request st"
| "app_route E Index request r st = (Inr (index request), st)"
| "app_route E Mailboxes request r st =
     login_required E handle_no_auth (mailboxes E) request st"
| "app_route E (Mailbox mailbox_id) request r st =
     login_required E handle_no_auth (\<lambda>rq. mailbox E rq mailbox_id) request st"
| "app_route E (Mail mail_id) request r st =
     login_required E handle_no_auth (\<lambda>rq. mail E rq mail_id) request st"
| "app_route E (Mail_mark_read mail_id) request r st =
     login_required E handle_no_auth (\<lambda>rq. mail_mark_read E rq mail_id) request st"
| "app_route E (Mail_download_attachment mail_id att_index filename) request r st =
     login_required E handle_no_auth
       (\<lambda>rq. mail_download_attachment E rq mail_id att_index filename) request st"
| "app_route E Sendmail request r st =
     login_required E handle_no_auth (sendmail E) request st"
| "app_route E (Mail_resend mail_id) request r st =
     login_required E handle_no_auth (\<lambda>rq. mail_resend E rq mail_id) request st"
| "app_route E Contacts_search request r st =
     login_required E handle_no_auth (contacts_search E) request st"

text \<open>
  One request through the application: the request middleware, the route, and on a
  response the response middleware. At most one session key is generated for a request
  (a handler that sets the cookie keeps the middleware from doing so), hence the single
  \<open>r\<close>. An exception is handed back as it is.
\<close>

definition handle_request ::
  "'st env \<Rightarrow> route \<Rightarrow> request \<Rightarrow> 128 word \<Rightarrow> 'st \<Rightarrow> (error + response) \<times> 'st" where
  "handle_request E rt request r st =
     (let (request1, st1) = add_session_to_request E request st;
          (result, st2) = app_route E rt request1 r st1
      in case result of
           Inl e \<Rightarrow> (Inl e, st2)
         | Inr response \<Rightarrow> (Inr (add_session_key_to_response request1 response r), st2))"

section \<open>An environment to run the handlers on\<close>

text \<open>
  Modelled from the spec: the storage layer, the account manager and the mail sender
  are not among the sources. The theorems below hold for every environment; this one
  runs the handlers on examples. Its sessions follow the specification: the token is
  looked up server-side, and an absent or unknown token yields an empty session. Mails,
  mailboxes and attachments are tables by id, the mailbox listing is a list of entries
  of which an account sees its own, \<open>update_mail\<close> files a mail under its
  \<^verbatim>\<open>uid\<close>, and every search and every mail sent is recorded. The JSON encoder is the
  standard library's, which does not take a datetime.
\<close>

record mem =
  mem_sessions :: "(string \<times> pydict) list"
  mem_listing :: "pyval list"
  mem_mailboxes :: "(string \<times> pyval) list"
  mem_mails :: "(string \<times> pyval) list"
  mem_attachments :: "((string \<times> int) \<times> pyval \<times> pyval) list"
  mem_searches :: "string list"
  mem_sent :: "pyval list"

definition alice :: account where
  "alice = \<lparr>name = ''alice'', address = ''alice@example.org'',
            to_json = PDict [(''name'', PStr ''alice''), (''address'', PStr ''alice@example.org'')]\<rparr>"

definition bob :: account where
  "bob = \<lparr>name = ''bob'', address = ''bob@example.org'',
          to_json = PDict [(''name'', PStr ''bob''), (''address'', PStr ''bob@example.org'')]\<rparr>"

definition mem_authenticate :: "pyval \<Rightarrow> account option" where
  "mem_authenticate credentials =
     (if credentials = PDict [(''name'', PStr ''alice''), (''password'', PStr ''wonderland'')]
      then Some alice
      else if credentials = PDict [(''name'', PStr ''bob''), (''password'', PStr ''builder'')]
      then Some bob
      else None)"

definition mem_get :: "pyval \<Rightarrow> account option" where
  "mem_get token =
     (if token = PStr ''alice'' then Some alice
      else if token = PStr ''bob'' then Some bob
      else None)"

text \<open>Decimal digits only, which is all the examples need of \<^verbatim>\<open>int()\<close>.\<close>

definition mem_int_of_str :: "string \<Rightarrow> int option" where
  "mem_int_of_str s =
     (if s \<noteq> [] \<and> list_all (\<lambda>c. c \<in> set ''0123456789'') s
      then Some (foldl (\<lambda>a c. 10 * a + (int (of_char c) - 48)) 0 s)
      else None)"

definition mem_table :: "(string \<times> pyval) list \<Rightarrow> string \<Rightarrow> pyval" where
  "mem_table t k = (case map_of t k of None \<Rightarrow> PNone | Some v \<Rightarrow> v)"

definition mem_update_mail :: "mem \<Rightarrow> pyval \<Rightarrow> mem" where
  "mem_update_mail st m =
     (case subscript m ''uid'' of
        Inr (PStr uid) \<Rightarrow> st\<lparr>mem_mails := AList.update uid m (mem_mails st)\<rparr>
      | _ \<Rightarrow> st)"

definition mem_env :: "mem env" where
  "mem_env =
     \<lparr>get_user_session =
        (\<lambda>st k. (case map_of (mem_sessions st) k of None \<Rightarrow> [] | Some s \<Rightarrow> s, st)),
      save_user_session = (\<lambda>st k s. st\<lparr>mem_sessions := AList.update k s (mem_sessions st)\<rparr>),
      get_mailboxes =
        (\<lambda>st acct. (PList (filter (\<lambda>mb. subscript mb ''account'' = Inr (PStr (name acct)))
                                   (mem_listing st)), st)),
      get_mailbox = (\<lambda>st k. (mem_table (mem_mailboxes st) k, st)),
      get_mail = (\<lambda>st k. (mem_table (mem_mails st) k, st)),
      update_mail = mem_update_mail,
      get_mail_attachment =
        (\<lambda>st k i. (case map_of (mem_attachments st) (k, i) of
                       None \<Rightarrow> (PNone, PNone)
                     | Some a \<Rightarrow> a, st)),
      storage_contacts_search =
        (\<lambda>st acct t. (PList [], st\<lparr>mem_searches := t # mem_searches st\<rparr>)),
      authenticate = mem_authenticate,
      get = mem_get,
      parse_email = (\<lambda>v. v),
      make_msg = (\<lambda>subject content from_addr tos ccs attachments.
                    PDict [(''subject'', subject), (''content'', content), (''from'', from_addr),
                           (''to'', PList tos), (''cc'', PList ccs),
                           (''attachments'', attachments)]),
      send_mail = (\<lambda>st acct msg from_addr all_addrs.
                     (PDict [(''delivered'', PList all_addrs)],
                      st\<lparr>mem_sent := msg # mem_sent st\<rparr>)),
      resend_mail = (\<lambda>st acct m tos.
                       (PDict [(''delivered'', PList tos)], st\<lparr>mem_sent := m # mem_sent st\<rparr>)),
      guess_extension = map_of [(''text/plain'', ''.txt''), (''image/png'', ''.png'')],
      repr = (\<lambda>v. ''<object>''),
      int_of_str = mem_int_of_str,
      encodes_datetime = False\<rparr>"

text \<open>
  A storage with alice's session under the key \<open>k1\<close>, a mail of bob's with an
  attachment, two mails of alice's, one dated by a datetime and one by a string, her
  mailbox and the entries of the mailbox listing.
\<close>

definition k1 :: string where
  "k1 = ''0123456789abcdef0123456789abcdef''"

definition bobs_mail :: pyval where
  "bobs_mail =
     PDict [(''uid'', PStr ''m1''), (''account'', PStr ''bob''), (''subject'', PStr ''payroll''),
            (''unread'', PBool True), (''date'', PDatetime (Datetime 2018 5 17 9 30 0 0 None)),
            (''attachments'', PList [])]"

definition alices_mail :: pyval where
  "alices_mail =
     PDict [(''uid'', PStr ''m2''), (''account'', PStr ''alice''), (''subject'', PStr ''hello''),
            (''unread'', PBool True), (''date'', PDatetime (Datetime 2018 5 17 9 30 0 0 None)),
            (''attachments'',
             PList [PDict [(''index'', PInt 0), (''type'', PStr ''text/plain'')],
                    PDict [(''index'', PInt 1), (''type'', PStr ''application/x-unknown'')],
                    PDict [(''index'', PInt 2), (''type'', PStr ''image/png''),
                           (''filename'', PStr ''cat.png'')]])]"

definition alices_read_mail :: pyval where
  "alices_read_mail =
     PDict [(''uid'', PStr ''m3''), (''account'', PStr ''alice''), (''subject'', PStr ''lunch''),
            (''unread'', PBool True), (''date'', PStr ''2018-05-18T10:00:00''),
            (''attachments'', PList [])]"

definition alices_mailbox :: pyval where
  "alices_mailbox =
     PDict [(''uid'', PStr ''b1''), (''account'', PStr ''alice''),
            (''last_message'', PStr ''2018-05-18T10:00:00''),
            (''messages'',
             PList [PDict [(''uid'', PStr ''m2''),
                           (''date'', PDatetime (Datetime 2018 5 17 9 30 0 0 (Some 7200000000)))],
                    PDict [(''uid'', PStr ''m3''), (''date'', PStr ''2018-05-18T10:00:00'')]])]"

definition inbox_entry :: pyval where
  "inbox_entry =
     PDict [(''uid'', PStr ''b1''), (''account'', PStr ''alice''), (''name'', PStr ''inbox''),
            (''last_message'', PDatetime (Datetime 2018 5 17 9 30 0 0 None))]"

definition archive_entry :: pyval where
  "archive_entry =
     PDict [(''uid'', PStr ''b2''), (''account'', PStr ''alice''), (''name'', PStr ''archive''),
            (''last_message'', PStr ''2018-01-01T00:00:00'')]"

definition bobs_entry :: pyval where
  "bobs_entry =
     PDict [(''uid'', PStr ''b3''), (''account'', PStr ''bob''), (''name'', PStr ''inbox''),
            (''last_message'', PDatetime (Datetime 2018 5 17 9 30 0 0 None))]"

definition mem0 :: mem where
  "mem0 =
     \<lparr>mem_sessions = [(k1, [(''_auth'', PStr ''alice'')])],
      mem_listing = [inbox_entry, bobs_entry, archive_entry],
      mem_mailboxes = [(''b1'', alices_mailbox)],
      mem_mails = [(''m1'', bobs_mail), (''m2'', alices_mail), (''m3'', alices_read_mail)],
      mem_attachments =
        [((''m1'', 0), PDict [(''type'', PStr ''application/pdf'')], PStr ''bob's payslip'')],
      mem_searches = [],
      mem_sent = []\<rparr>"

definition no_request :: request where
  "no_request = \<lparr>cookies = [], session = [], request_json = PNone, args = []\<rparr>"

text \<open>What \<^verbatim>\<open>/api/mail/m2\<close> is expected to answer to alice.\<close>

definition alices_mail_response :: pyval where
  "alices_mail_response =
     PDict [(''uid'', PStr ''m2''), (''account'', PStr ''alice''), (''subject'', PStr ''hello''),
            (''unread'', PBool True), (''date'', PStr ''2018-05-17T09:30:00''),
            (''attachments'',
             PList [PDict [(''index'', PInt 0), (''type'', PStr ''text/plain''),
                           (''filename'', PStr ''file_0.txt''),
                           (''url'', PStr ''/api/mail/m2/attachment/0/file_0.txt'')],
                    PDict [(''index'', PInt 1), (''type'', PStr ''application/x-unknown''),
                           (''filename'', PStr ''file_1.bin''),
                           (''url'', PStr ''/api/mail/m2/attachment/1/file_1.bin'')],
                    PDict [(''index'', PInt 2), (''type'', PStr ''image/png''),
                           (''filename'', PStr ''cat.png''),
                           (''url'', PStr ''/api/mail/m2/attachment/2/cat.png'')]])]"

section \<open>Reshaping timestamps, as the specification words it\<close>

text \<open>
  This definition is not taken from the code. It states the specification's sentence,
  to compare the handlers with: in a dict, a value under the key \<open>k\<close> that is a
  datetime is replaced by its ISO-8601 string; a value that is not a datetime, and
  every other object, is left unchanged.
\<close>

fun reshaped :: "string \<Rightarrow> pyval \<Rightarrow> pyval" where
  "reshaped k (PDict d) =
     (case map_of d k of
        Some (PDatetime t) \<Rightarrow> PDict (AList.update k (PStr (isoformat t)) d)
      | _ \<Rightarrow> PDict d)"
| "reshaped k v = v"

section \<open>Session keys are 32 hexadecimal digits\<close>





section \<open>Responses\<close>

text \<open>An object without a datetime is serialised by every encoder.\<close>

lemma json_plain:
  "\<not> contains_datetime v \<Longrightarrow> json E v = Inr \<lparr>body = Json v, response_cookies = []\<rparr>"
  by (simp add: json_def)

lemma json_answers:
  "json E v = Inr resp \<Longrightarrow> resp = \<lparr>body = Json v, response_cookies = []\<rparr>"
  by (simp add: json_def split: if_splits)

section \<open>Sessions and authentication\<close>

lemma current_user_no_session: "current_user E (rq\<lparr>session := []\<rparr>) = None"
  by (simp add: current_user_def)

lemma app_route_no_user:
  "current_user E rq = None \<Longrightarrow> rt \<noteq> Login \<Longrightarrow> rt \<noteq> Index \<Longrightarrow>
   app_route E rt rq r st = (Inl (Forbidden ''This route need authentification''), st)"
  by (cases rt) (simp_all add: login_required_def handle_no_auth_def)




text \<open>
  Claim C4: every authentication or authorization failure surfaces as Forbidden. A POST
  to \<^verbatim>\<open>/login\<close> whose credentials do not authenticate raises Forbidden; every route
  other than \<^verbatim>\<open>/login\<close> and \<^verbatim>\<open>/\<close> is behind \<^verbatim>\<open>login_required\<close> and raises Forbidden
  when the session gives no current user, in particular for a request without a
  \<^verbatim>\<open>session_key\<close> cookie. The result is exactly Forbidden, no other exception, and the
  storage is not changed.
\<close>

theorem auth_failures_are_forbidden:
  "(authenticate E (request_json rq) = None \<longrightarrow>
      login E rq r st = (Inl (Forbidden ''Authentification failed. Check your credentials.''), st)) \<and>
   (current_user E rq = None \<and> rt \<noteq> Login \<and> rt \<noteq> Index \<longrightarrow>
      app_route E rt rq r st = (Inl (Forbidden ''This route need authentification''), st)) \<and>
   (map_of (cookies rq) ''session_key'' = None \<and> rt \<noteq> Login \<and> rt \<noteq> Index \<longrightarrow>
      handle_request E rt rq r st = (Inl (Forbidden ''This route need authentification''), st))"
  by (simp add: login_def app_route_no_user handle_request_def add_session_to_request_def
        current_user_no_session)

theorem auth_failures_are_forbidden_witness:
  "login mem_env
     (no_request\<lparr>request_json := PDict [(''name'', PStr ''test''), (''password'', PStr ''bad_password'')]\<rparr>)
     7 mem0 =
     (Inl (Forbidden ''Authentification failed. Check your credentials.''), mem0) \<and>
   app_route mem_env (Mail ''m2'') no_request 7 mem0 =
     (Inl (Forbidden ''This route need authentification''), mem0) \<and>
   handle_request mem_env (Mail ''m2'') no_request 7 mem0 =
     (Inl (Forbidden ''This route need authentification''), mem0)"
proof -
  let ?bad = "no_request\<lparr>request_json :=
                PDict [(''name'', PStr ''test''), (''password'', PStr ''bad_password'')]\<rparr>"
  have a: "authenticate mem_env (request_json ?bad) = None"
    by (simp add: mem_env_def mem_authenticate_def)
  have b: "current_user mem_env no_request = None"
    by (simp add: current_user_def no_request_def)
  have c: "map_of (cookies no_request) ''session_key'' = None"
    by (simp add: no_request_def)
  show ?thesis
    using auth_failures_are_forbidden [where E = mem_env and rq = ?bad and r = 7 and st = mem0]
          auth_failures_are_forbidden [where E = mem_env and rq = no_request and r = 7
            and st = mem0 and rt = "Mail ''m2''"] a b c
    by simp
qed



text \<open>
  What \<^verbatim>\<open>logout\<close> does do: the request's session is the empty dict afterwards, the
  response is \<^verbatim>\<open>'Ok'\<close> and sets a newly generated \<^verbatim>\<open>session_key\<close> cookie, and the
  storage is left as it was, for the route calls none of its functions.
\<close>

lemma logout_request:
  "logout E rq r = (res, rq') \<Longrightarrow>
   session rq' = [] \<and>
   res = Inr \<lparr>body = Json (PStr ''Ok''),
              response_cookies = [(''session_key'', gen_session_key r)]\<rparr>"
  by (auto simp add: logout_def json_def Let_def)

lemma logout_untouched: "snd (app_route E Logout rq r st) = st"
  by (simp add: login_required_def handle_no_auth_def split: option.split)

text \<open>
  Claim C2 says that after \<^verbatim>\<open>/logout\<close> the old session token no longer maps to an
  authenticated session on the server. The handler pops the token from its own copy of
  the session and never calls \<^verbatim>\<open>save_user_session\<close>, as \<^verbatim>\<open>login\<close> does after changing
  a session. In the example alice logs out with the cookie \<open>k1\<close>: the response is
  \<^verbatim>\<open>'Ok'\<close> with a new cookie, the storage is unchanged, the stored session under
  \<open>k1\<close> still names alice, and a later request with the old cookie is answered with
  her account.
\<close>

theorem logout_keeps_server_session:
  "handle_request mem_env Logout (no_request\<lparr>cookies := [(''session_key'', k1)]\<rparr>) 5 mem0 =
     (Inr \<lparr>body = Json (PStr ''Ok''),
           response_cookies = [(''session_key'', ''00000000000040008000000000000005'')]\<rparr>, mem0) \<and>
   fst (get_user_session mem_env mem0 k1) = [(''_auth'', PStr ''alice'')] \<and>
   handle_request mem_env Account (no_request\<lparr>cookies := [(''session_key'', k1)]\<rparr>) 6 mem0 =
     (Inr \<lparr>body = Json (to_json alice), response_cookies = []\<rparr>, mem0)"
proof -
  have h: "gen_session_key 5 = ''00000000000040008000000000000005''"
    by code_simp
  show ?thesis
    by (simp add: h handle_request_def add_session_to_request_def no_request_def k1_def
          mem_env_def mem0_def login_required_def current_user_def auth_session_key_def
          mem_get_def logout_def logout_user_def json_def account_def alice_def
          add_session_key_to_response_def)
qed

section \<open>Ownership\<close>

text \<open>
  \<^verbatim>\<open>mailbox\<close>, \<^verbatim>\<open>mail\<close>, \<^verbatim>\<open>mail_mark_read\<close> and \<^verbatim>\<open>mail_resend\<close> compare the
  \<^verbatim>\<open>account\<close> field of what they fetched with the caller's name and raise Forbidden when
  they differ, before anything else happens.
\<close>

lemma foreign_mail_forbidden:
  "get_mail E st mail_id = (m, st1) \<Longrightarrow> subscript m ''account'' = Inr owner \<Longrightarrow>
   owner \<noteq> PStr (name acct) \<Longrightarrow>
   mail E rq mail_id acct st =
     (Inl (Forbidden ''You don't have permission to see this mail.''), st1) \<and>
   mail_mark_read E rq mail_id acct st =
     (Inl (Forbidden ''You don't have permission to see this mail.''), st1) \<and>
   mail_resend E rq mail_id acct st =
     (Inl (Forbidden ''You don't have permission to resend this mail.''), st1)"
  by (simp add: mail_def mail_mark_read_def mail_resend_def)

lemma foreign_mailbox_forbidden:
  "get_mailbox E st mailbox_id = (mb, st1) \<Longrightarrow> subscript mb ''account'' = Inr owner \<Longrightarrow>
   owner \<noteq> PStr (name acct) \<Longrightarrow>
   mailbox E rq mailbox_id acct st =
     (Inl (Forbidden ''You don't have permission to see this mailbox.''), st1)"
  by (simp add: mailbox_def)

text \<open>\<^verbatim>\<open>mail_download_attachment\<close> does not look at the caller at all.\<close>

lemma download_any_caller:
  "mail_download_attachment E rq mail_id att_index filename acct st =
   mail_download_attachment E rq mail_id att_index filename acct' st"
  by (simp add: mail_download_attachment_def)

text \<open>
  Claim C1 lists the attachment download among the fetches that compare the stored
  \<^verbatim>\<open>account\<close> field with the caller's name. In the example alice is the current user
  and the mail \<^verbatim>\<open>m1\<close> belongs to bob: \<^verbatim>\<open>/api/mail/m1\<close> is refused with Forbidden, and
  \<^verbatim>\<open>/api/mail/m1/attachment/0/payslip.pdf\<close> streams bob's attachment to her.
\<close>

theorem download_attachment_of_foreign_mail:
  "current_user mem_env
     (fst (add_session_to_request mem_env (no_request\<lparr>cookies := [(''session_key'', k1)]\<rparr>) mem0)) =
     Some alice \<and>
   subscript (fst (get_mail mem_env mem0 ''m1'')) ''account'' = Inr (PStr ''bob'') \<and>
   handle_request mem_env (Mail_download_attachment ''m1'' ''0'' ''payslip.pdf'')
     (no_request\<lparr>cookies := [(''session_key'', k1)]\<rparr>) 0 mem0 =
     (Inr (stream (PStr ''bob's payslip'') (PStr ''application/pdf'')), mem0) \<and>
   handle_request mem_env (Mail ''m1'')
     (no_request\<lparr>cookies := [(''session_key'', k1)]\<rparr>) 0 mem0 =
     (Inl (Forbidden ''You don't have permission to see this mail.''), mem0)"
  by (simp add: handle_request_def add_session_to_request_def no_request_def k1_def
        mem_env_def mem0_def login_required_def current_user_def auth_session_key_def
        mem_get_def mail_download_attachment_def mem_int_of_str_def stream_def
        add_session_key_to_response_def mail_def mem_table_def bobs_mail_def alice_def)

section \<open>Marking a mail as read\<close>

text \<open>
  What \<^verbatim>\<open>mail_mark_read\<close> does with a mail of the caller's: the mail with \<^verbatim>\<open>unread\<close>
  set to False is passed to \<^verbatim>\<open>storage.update_mail\<close>, and then handed to \<^verbatim>\<open>json\<close>.
\<close>

lemma mail_mark_read_result:
  "get_mail E st mail_id = (m, st1) \<Longrightarrow> subscript m ''account'' = Inr (PStr (name acct)) \<Longrightarrow>
   \<exists>d. m = PDict d \<and>
       mail_mark_read E rq mail_id acct st =
         (json E (PDict (AList.update ''unread'' (PBool False) d)),
          update_mail E st1 (PDict (AList.update ''unread'' (PBool False) d))) \<and>
       subscript (PDict (AList.update ''unread'' (PBool False) d)) ''unread'' = Inr (PBool False)"
  by (cases m) (simp_all add: mail_mark_read_def update_conv')

text \<open>
  Claim C6 says that for every authenticated POST to \<^verbatim>\<open>/api/mail/{id}/mark_read\<close> on a
  mail of the caller's the changed mail is saved and returned as the JSON body.
  \<^verbatim>\<open>mail\<close> turns a \<^verbatim>\<open>date\<close> that is a datetime into a string before it calls \<^verbatim>\<open>json\<close>;
  \<^verbatim>\<open>mail_mark_read\<close> does not. In the example alice marks her mail \<^verbatim>\<open>m2\<close>, whose
  \<^verbatim>\<open>date\<close> is a datetime, with the standard encoder: the mail is saved with
  \<^verbatim>\<open>unread\<close> False, and then \<^verbatim>\<open>json\<close> raises \<^verbatim>\<open>TypeError\<close> instead of answering, while
  \<^verbatim>\<open>/api/mail/m2\<close> answers for the same mail.
\<close>

theorem mark_read_raises_on_datetime:
  "subscript alices_mail ''account'' = Inr (PStr (name alice)) \<and>
   subscript alices_mail ''date'' = Inr (PDatetime (Datetime 2018 5 17 9 30 0 0 None)) \<and>
   handle_request mem_env (Mail_mark_read ''m2'')
     (no_request\<lparr>cookies := [(''session_key'', k1)]\<rparr>) 0 mem0 =
     (Inl TypeError,
      mem0\<lparr>mem_mails := [(''m1'', bobs_mail),
                          (''m2'', changed_at alices_mail ''unread'' (PBool False)),
                          (''m3'', alices_read_mail)]\<rparr>) \<and>
   subscript (changed_at alices_mail ''unread'' (PBool False)) ''unread'' = Inr (PBool False) \<and>
   handle_request mem_env (Mail ''m2'')
     (no_request\<lparr>cookies := [(''session_key'', k1)]\<rparr>) 0 mem0 =
     (Inr \<lparr>body = Json alices_mail_response, response_cookies = []\<rparr>, mem0)"
  by code_simp

text \<open>
  Claim C9: the mark-read operation modifies only the \<^verbatim>\<open>unread\<close> field. For a mail of
  the caller's, the object passed to \<^verbatim>\<open>storage.update_mail\<close> reads under every key
  other than \<^verbatim>\<open>unread\<close> as the fetched mail does, and whenever the handler answers,
  that object is the body of the response. For any other mail \<^verbatim>\<open>update_mail\<close> is not
  called and nothing is answered.
\<close>

theorem mail_mark_read_frame:
  "get_mail E st mail_id = (m, st1) \<Longrightarrow>
   (subscript m ''account'' = Inr (PStr (name acct)) \<longrightarrow>
      (\<exists>marked. snd (mail_mark_read E rq mail_id acct st) = update_mail E st1 marked \<and>
         (\<forall>k. k \<noteq> ''unread'' \<longrightarrow> subscript marked k = subscript m k) \<and>
         (\<forall>resp. fst (mail_mark_read E rq mail_id acct st) = Inr resp \<longrightarrow>
            body resp = Json marked))) \<and>
   (subscript m ''account'' \<noteq> Inr (PStr (name acct)) \<longrightarrow>
      snd (mail_mark_read E rq mail_id acct st) = st1 \<and>
      (\<forall>resp. fst (mail_mark_read E rq mail_id acct st) \<noteq> Inr resp))"
proof (intro conjI impI)
  assume g: "get_mail E st mail_id = (m, st1)"
    and o: "subscript m ''account'' = Inr (PStr (name acct))"
  from mail_mark_read_result [OF g o, of rq] obtain d where d: "m = PDict d"
    and r: "mail_mark_read E rq mail_id acct st =
         (json E (PDict (AList.update ''unread'' (PBool False) d)),
          update_mail E st1 (PDict (AList.update ''unread'' (PBool False) d)))"
    by blast
  show "\<exists>marked. snd (mail_mark_read E rq mail_id acct st) = update_mail E st1 marked \<and>
         (\<forall>k. k \<noteq> ''unread'' \<longrightarrow> subscript marked k = subscript m k) \<and>
         (\<forall>resp. fst (mail_mark_read E rq mail_id acct st) = Inr resp \<longrightarrow>
            body resp = Json marked)"
    by (rule exI [of _ "PDict (AList.update ''unread'' (PBool False) d)"])
       (auto simp add: r d update_conv' json_def split: if_splits)
next
  assume g: "get_mail E st mail_id = (m, st1)"
    and o: "subscript m ''account'' \<noteq> Inr (PStr (name acct))"
  then show "snd (mail_mark_read E rq mail_id acct st) = st1"
    by (simp add: mail_mark_read_def split: sum.splits)
next
  assume g: "get_mail E st mail_id = (m, st1)"
    and o: "subscript m ''account'' \<noteq> Inr (PStr (name acct))"
  then show "\<forall>resp. fst (mail_mark_read E rq mail_id acct st) \<noteq> Inr resp"
    by (simp add: mail_mark_read_def split: sum.splits)
qed

theorem mail_mark_read_frame_witness:
  "(\<exists>marked. mail_mark_read mem_env no_request ''m3'' alice mem0 =
       (Inr \<lparr>body = Json marked, response_cookies = []\<rparr>, update_mail mem_env mem0 marked) \<and>
     subscript marked ''unread'' = Inr (PBool False) \<and>
     subscript marked ''subject'' = Inr (PStr ''lunch'') \<and>
     subscript marked ''account'' = Inr (PStr ''alice'') \<and>
     subscript marked ''date'' = subscript alices_read_mail ''date'' \<and>
     subscript marked ''attachments'' = subscript alices_read_mail ''attachments'') \<and>
   (\<exists>marked. mail_mark_read mem_env no_request ''m2'' alice mem0 =
       (Inl TypeError, update_mail mem_env mem0 marked) \<and>
     subscript marked ''date'' = subscript alices_mail ''date'' \<and>
     subscript marked ''attachments'' = subscript alices_mail ''attachments'') \<and>
   mail_mark_read mem_env no_request ''m1'' alice mem0 =
     (Inl (Forbidden ''You don't have permission to see this mail.''), mem0)"
proof -
  let ?r3 = "mail_mark_read mem_env no_request ''m3'' alice mem0"
  let ?r2 = "mail_mark_read mem_env no_request ''m2'' alice mem0"
  let ?r1 = "mail_mark_read mem_env no_request ''m1'' alice mem0"
  have g3: "get_mail mem_env mem0 ''m3'' = (alices_read_mail, mem0)"
    by code_simp
  have g2: "get_mail mem_env mem0 ''m2'' = (alices_mail, mem0)"
    by code_simp
  have g1: "get_mail mem_env mem0 ''m1'' = (bobs_mail, mem0)"
    by code_simp
  have o3: "subscript alices_read_mail ''account'' = Inr (PStr (name alice))"
    by code_simp
  have o2: "subscript alices_mail ''account'' = Inr (PStr (name alice))"
    by code_simp
  have o1: "subscript bobs_mail ''account'' \<noteq> Inr (PStr (name alice))"
    by code_simp
  have f3: "fst ?r3 = Inr \<lparr>body = Json (changed_at alices_read_mail ''unread'' (PBool False)),
                           response_cookies = []\<rparr>"
    by code_simp
  have f2: "fst ?r2 = Inl TypeError"
    by code_simp
  have f1: "fst ?r1 = Inl (Forbidden ''You don't have permission to see this mail.'')"
    by code_simp
  have s3: "subscript alices_read_mail ''subject'' = Inr (PStr ''lunch'')"
           "subscript alices_read_mail ''account'' = Inr (PStr ''alice'')"
           "subscript (changed_at alices_read_mail ''unread'' (PBool False)) ''unread'' = Inr (PBool False)"
    by code_simp+
  from mail_mark_read_frame [OF g3, of alice no_request] o3 obtain marked3 where
    m3: "snd ?r3 = update_mail mem_env mem0 marked3"
        "\<forall>k. k \<noteq> ''unread'' \<longrightarrow> subscript marked3 k = subscript alices_read_mail k"
        "\<forall>resp. fst ?r3 = Inr resp \<longrightarrow> body resp = Json marked3"
    by blast
  from m3(3) f3 have e3: "marked3 = changed_at alices_read_mail ''unread'' (PBool False)"
    by simp
  have c3: "\<exists>marked. ?r3 =
       (Inr \<lparr>body = Json marked, response_cookies = []\<rparr>, update_mail mem_env mem0 marked) \<and>
     subscript marked ''unread'' = Inr (PBool False) \<and>
     subscript marked ''subject'' = Inr (PStr ''lunch'') \<and>
     subscript marked ''account'' = Inr (PStr ''alice'') \<and>
     subscript marked ''date'' = subscript alices_read_mail ''date'' \<and>
     subscript marked ''attachments'' = subscript alices_read_mail ''attachments''"
    using m3(1,2) f3 s3 e3
    by (intro exI [of _ marked3]) (simp add: prod_eq_iff)
  from mail_mark_read_frame [OF g2, of alice no_request] o2 obtain marked2 where
    m2: "snd ?r2 = update_mail mem_env mem0 marked2"
        "\<forall>k. k \<noteq> ''unread'' \<longrightarrow> subscript marked2 k = subscript alices_mail k"
    by blast
  have c2: "\<exists>marked. ?r2 = (Inl TypeError, update_mail mem_env mem0 marked) \<and>
     subscript marked ''date'' = subscript alices_mail ''date'' \<and>
     subscript marked ''attachments'' = subscript alices_mail ''attachments''"
    using m2 f2 by (intro exI [of _ marked2]) (simp add: prod_eq_iff)
  from mail_mark_read_frame [OF g1, of alice no_request] o1 have "snd ?r1 = mem0"
    by blast
  with f1 have c1: "?r1 = (Inl (Forbidden ''You don't have permission to see this mail.''), mem0)"
    by (simp add: prod_eq_iff)
  from c3 c2 c1 show ?thesis by (intro conjI)
qed

section \<open>Searching contacts\<close>

text \<open>
  Claim C8: for every authenticated GET of \<^verbatim>\<open>/api/contacts/search\<close> where the \<^verbatim>\<open>text\<close>
  query parameter is absent or the empty string, the handler returns an empty JSON list
  and does not call the storage contact search: whatever function \<open>f\<close> the storage puts
  behind \<^verbatim>\<open>contacts_search\<close>, and whatever \<open>f\<close> would do to the state, the answer is
  the empty list and the state is untouched.
\<close>

theorem contacts_search_empty_text:
  "map_of (args rq) ''text'' = None \<or> map_of (args rq) ''text'' = Some [] \<Longrightarrow>
   contacts_search (E\<lparr>storage_contacts_search := f\<rparr>) rq acct st =
     (Inr \<lparr>body = Json (PList []), response_cookies = []\<rparr>, st) \<and>
   (current_user (E\<lparr>storage_contacts_search := f\<rparr>) rq = Some acct \<longrightarrow>
      app_route (E\<lparr>storage_contacts_search := f\<rparr>) Contacts_search rq r st =
        (Inr \<lparr>body = Json (PList []), response_cookies = []\<rparr>, st))"
  by (auto simp add: contacts_search_def login_required_def json_def)

theorem contacts_search_empty_text_witness:
  "contacts_search mem_env no_request alice mem0 =
     (Inr \<lparr>body = Json (PList []), response_cookies = []\<rparr>, mem0) \<and>
   contacts_search mem_env (no_request\<lparr>args := [(''text'', [])]\<rparr>) alice mem0 =
     (Inr \<lparr>body = Json (PList []), response_cookies = []\<rparr>, mem0) \<and>
   app_route mem_env Contacts_search
     (no_request\<lparr>session := [(''_auth'', PStr ''alice'')]\<rparr>) 0 mem0 =
     (Inr \<lparr>body = Json (PList []), response_cookies = []\<rparr>, mem0) \<and>
   mem_searches mem0 = [] \<and>
   mem_searches (snd (contacts_search mem_env (no_request\<lparr>args := [(''text'', ''bo'')]\<rparr>) alice mem0)) =
     [''bo'']"
proof -
  let ?e = "no_request\<lparr>args := [(''text'', [])]\<rparr>"
  let ?a = "no_request\<lparr>session := [(''_auth'', PStr ''alice'')]\<rparr>"
  have same: "mem_env\<lparr>storage_contacts_search := storage_contacts_search mem_env\<rparr> = mem_env"
    by simp
  have a: "map_of (args no_request) ''text'' = None \<or> map_of (args no_request) ''text'' = Some []"
    by (simp add: no_request_def)
  have b: "map_of (args ?e) ''text'' = None \<or> map_of (args ?e) ''text'' = Some []"
    by (simp add: no_request_def)
  have c: "map_of (args ?a) ''text'' = None \<or> map_of (args ?a) ''text'' = Some []"
    by (simp add: no_request_def)
  have u: "current_user mem_env ?a = Some alice"
    by (simp add: current_user_def auth_session_key_def mem_env_def mem_get_def)
  have d: "mem_searches (snd (contacts_search mem_env (no_request\<lparr>args := [(''text'', ''bo'')]\<rparr>) alice mem0)) =
     [''bo''] \<and> mem_searches mem0 = []"
    by (simp add: contacts_search_def mem_env_def mem0_def)
  show ?thesis
    using contacts_search_empty_text [OF a, where E = mem_env and f = "storage_contacts_search mem_env"
            and acct = alice and st = mem0]
          contacts_search_empty_text [OF b, where E = mem_env and f = "storage_contacts_search mem_env"
            and acct = alice and st = mem0]
          contacts_search_empty_text [OF c, where E = mem_env and f = "storage_contacts_search mem_env"
            and acct = alice and st = mem0 and r = 0] u d
    unfolding same by simp
qed

section \<open>Timestamps\<close>

lemma iso_field_reshaped: "iso_field k m = Inr m' \<Longrightarrow> m' = reshaped k m"
  by (cases m) (auto simp add: iso_field_def split: option.splits pyval.splits)

lemma iso_field_other:
  "iso_field k m = Inr m' \<Longrightarrow> k' \<noteq> k \<Longrightarrow> subscript m' k' = subscript m k'"
  by (cases m) (auto simp add: iso_field_def update_conv' split: option.splits pyval.splits)

lemma map_result_map:
  "(\<And>x y. f x = Inr y \<Longrightarrow> y = g x) \<Longrightarrow> map_result f xs = Inr ys \<Longrightarrow> ys = map g xs"
  by (induction xs arbitrary: ys) (auto split: sum.splits)

lemma map_result_all2:
  "map_result f xs = Inr ys \<Longrightarrow> list_all2 (\<lambda>x y. f x = Inr y) xs ys"
  by (induction xs arbitrary: ys) (auto split: sum.splits)

lemma iso_loop_reshaped:
  "map_result (iso_field k) ms = Inr ms' \<Longrightarrow> ms' = map (reshaped k) ms"
  by (rule map_result_map [where f = "iso_field k"]) (auto dest: iso_field_reshaped)

lemma subscript_changed_at:
  "k' \<noteq> k \<Longrightarrow> subscript (changed_at m k x) k' = subscript m k'"
  by (cases m) (simp_all add: update_conv')

lemma subscript_changed_at_same:
  "subscript m k = Inr v \<Longrightarrow> subscript (changed_at m k x) k = Inr x"
  by (cases m) (simp_all add: update_conv')

text \<open>
  Claim C7: the handlers reshape timestamps before responding. Whenever they answer,
  the body of the \<^verbatim>\<open>/api/mailboxes\<close> response is the list of mailboxes with
  \<^verbatim>\<open>last_message\<close> reshaped in each; the body of \<^verbatim>\<open>/api/mailbox/{id}\<close> is the mailbox
  with \<^verbatim>\<open>date\<close> reshaped in each of its messages; the body of \<^verbatim>\<open>/api/mail/{id}\<close> reads,
  under every key but \<^verbatim>\<open>attachments\<close>, as the mail with \<^verbatim>\<open>date\<close> reshaped. Reshaping
  replaces a datetime by its ISO-8601 string and leaves any other value unchanged.
\<close>

theorem timestamps_reshaped:
  "(get_mailboxes E st acct = (PList ms, st1) \<and> mailboxes E rq acct st = (Inr resp, st2) \<longrightarrow>
      body resp = Json (PList (map (reshaped ''last_message'') ms))) \<and>
   (get_mailbox E st mailbox_id = (mb, st1) \<and> subscript mb ''messages'' = Inr (PList msgs) \<and>
    mailbox E rq mailbox_id acct st = (Inr resp, st2) \<longrightarrow>
      body resp = Json (changed_at mb ''messages'' (PList (map (reshaped ''date'') msgs)))) \<and>
   (get_mail E st mail_id = (m, st1) \<and> mail E rq mail_id acct st = (Inr resp, st2) \<longrightarrow>
      (\<exists>m'. body resp = Json m' \<and>
         (\<forall>k. k \<noteq> ''attachments'' \<longrightarrow> subscript m' k = subscript (reshaped ''date'' m) k)))"
proof (intro conjI impI)
  assume "get_mailboxes E st acct = (PList ms, st1) \<and> mailboxes E rq acct st = (Inr resp, st2)"
  then show "body resp = Json (PList (map (reshaped ''last_message'') ms))"
    by (auto simp add: mailboxes_def split: sum.splits dest!: iso_loop_reshaped json_answers)
next
  assume "get_mailbox E st mailbox_id = (mb, st1) \<and> subscript mb ''messages'' = Inr (PList msgs) \<and>
    mailbox E rq mailbox_id acct st = (Inr resp, st2)"
  then show "body resp = Json (changed_at mb ''messages'' (PList (map (reshaped ''date'') msgs)))"
    by (auto simp add: mailbox_def split: sum.splits if_splits
          dest!: iso_loop_reshaped json_answers)
next
  assume "get_mail E st mail_id = (m, st1) \<and> mail E rq mail_id acct st = (Inr resp, st2)"
  then show "\<exists>m'. body resp = Json m' \<and>
         (\<forall>k. k \<noteq> ''attachments'' \<longrightarrow> subscript m' k = subscript (reshaped ''date'' m) k)"
    by (auto simp add: mail_def subscript_changed_at split: sum.splits if_splits
          dest!: iso_field_reshaped json_answers)
qed

theorem timestamps_reshaped_witness:
  "mailboxes mem_env no_request alice mem0 =
     (Inr \<lparr>body = Json (PList [changed_at inbox_entry ''last_message'' (PStr ''2018-05-17T09:30:00''),
                                archive_entry]),
           response_cookies = []\<rparr>, mem0) \<and>
   mailbox mem_env no_request ''b1'' alice mem0 =
     (Inr \<lparr>body = Json (changed_at alices_mailbox ''messages''
             (PList [PDict [(''uid'', PStr ''m2''), (''date'', PStr ''2018-05-17T09:30:00+02:00'')],
                     PDict [(''uid'', PStr ''m3''), (''date'', PStr ''2018-05-18T10:00:00'')]])),
           response_cookies = []\<rparr>, mem0) \<and>
   (\<exists>resp m'. mail mem_env no_request ''m2'' alice mem0 = (Inr resp, mem0) \<and>
      body resp = Json m' \<and>
      subscript m' ''date'' = Inr (PStr ''2018-05-17T09:30:00'') \<and>
      subscript m' ''subject'' = Inr (PStr ''hello''))"
proof -
  let ?ms = "[PDict [(''uid'', PStr ''m2''),
                     (''date'', PDatetime (Datetime 2018 5 17 9 30 0 0 (Some 7200000000)))],
              PDict [(''uid'', PStr ''m3''), (''date'', PStr ''2018-05-18T10:00:00'')]]"
  let ?b1 = "\<lparr>body = Json (PList [changed_at inbox_entry ''last_message'' (PStr ''2018-05-17T09:30:00''),
                                archive_entry]),
              response_cookies = []\<rparr>"
  let ?b2 = "\<lparr>body = Json (changed_at alices_mailbox ''messages''
                (PList [PDict [(''uid'', PStr ''m2''), (''date'', PStr ''2018-05-17T09:30:00+02:00'')],
                        PDict [(''uid'', PStr ''m3''), (''date'', PStr ''2018-05-18T10:00:00'')]])),
              response_cookies = []\<rparr>"
  let ?b3 = "\<lparr>body = Json alices_mail_response, response_cookies = []\<rparr>"
  have g1: "get_mailboxes mem_env mem0 alice = (PList [inbox_entry, archive_entry], mem0)"
    by code_simp
  have g2: "get_mailbox mem_env mem0 ''b1'' = (alices_mailbox, mem0)"
    by code_simp
  have s2: "subscript alices_mailbox ''messages'' = Inr (PList ?ms)"
    by code_simp
  have g3: "get_mail mem_env mem0 ''m2'' = (alices_mail, mem0)"
    by code_simp
  have r1: "mailboxes mem_env no_request alice mem0 = (Inr ?b1, mem0)"
    by code_simp
  have r2: "mailbox mem_env no_request ''b1'' alice mem0 = (Inr ?b2, mem0)"
    by code_simp
  have r3: "mail mem_env no_request ''m2'' alice mem0 = (Inr ?b3, mem0)"
    by code_simp
  have e1: "map (reshaped ''last_message'') [inbox_entry, archive_entry] =
      [changed_at inbox_entry ''last_message'' (PStr ''2018-05-17T09:30:00''), archive_entry]"
    by code_simp
  have e2: "map (reshaped ''date'') ?ms =
      [PDict [(''uid'', PStr ''m2''), (''date'', PStr ''2018-05-17T09:30:00+02:00'')],
       PDict [(''uid'', PStr ''m3''), (''date'', PStr ''2018-05-18T10:00:00'')]]"
    by code_simp
  have e3: "subscript (reshaped ''date'' alices_mail) ''date'' = Inr (PStr ''2018-05-17T09:30:00'')"
           "subscript (reshaped ''date'' alices_mail) ''subject'' = Inr (PStr ''hello'')"
    by code_simp+
  note t = timestamps_reshaped [where E = mem_env and st = mem0 and ?st1.0 = mem0 and ?st2.0 = mem0
      and acct = alice and rq = no_request]
  from t [where ms = "[inbox_entry, archive_entry]" and resp = ?b1] g1 r1
  have "body ?b1 = Json (PList (map (reshaped ''last_message'') [inbox_entry, archive_entry]))"
    by blast
  with r1 e1 have c1: "mailboxes mem_env no_request alice mem0 = (Inr ?b1, mem0)"
    by simp
  from t [where mailbox_id = "''b1''" and mb = alices_mailbox and msgs = ?ms and resp = ?b2] g2 s2 r2
  have "body ?b2 = Json (changed_at alices_mailbox ''messages'' (PList (map (reshaped ''date'') ?ms)))"
    by blast
  with r2 e2 have c2: "mailbox mem_env no_request ''b1'' alice mem0 = (Inr ?b2, mem0)"
    by simp
  from t [where mail_id = "''m2''" and m = alices_mail and resp = ?b3] g3 r3
  obtain m' where m': "body ?b3 = Json m'"
    "\<forall>k. k \<noteq> ''attachments'' \<longrightarrow> subscript m' k = subscript (reshaped ''date'' alices_mail) k"
    by blast
  from m'(2) e3 have "subscript m' ''date'' = Inr (PStr ''2018-05-17T09:30:00'')"
    "subscript m' ''subject'' = Inr (PStr ''hello'')"
    by simp_all
  with r3 m'(1) have c3: "\<exists>resp m'. mail mem_env no_request ''m2'' alice mem0 = (Inr resp, mem0) \<and>
      body resp = Json m' \<and>
      subscript m' ''date'' = Inr (PStr ''2018-05-17T09:30:00'') \<and>
      subscript m' ''subject'' = Inr (PStr ''hello'')"
    by blast
  from c1 c2 c3 show ?thesis by (intro conjI)
qed

section \<open>Attachments\<close>

lemma guess_str: "py_guess_extension E ty = Inr g \<Longrightarrow> \<exists>t. ty = PStr t \<and> g = guess_extension E t"
  by (cases ty) simp_all

lemma default_filename_spec:
  "default_filename E (PDict d) = Inr a1 \<Longrightarrow>
   \<exists>idx t. map_of d ''index'' = Some idx \<and> map_of d ''type'' = Some (PStr t) \<and>
     a1 = PDict (AList.update ''filename''
            (PStr (''file_'' @ py_str E idx @
               (case guess_extension E t of None \<Rightarrow> ''.bin'' | Some x \<Rightarrow> if x = [] then ''.bin'' else x))) d)"
  by (auto simp add: default_filename_def Let_def split: option.splits sum.splits dest!: guess_str)

lemma attachment_url_spec:
  "attachment_url E mail_id (PDict d) = Inr a' \<Longrightarrow>
   \<exists>idx fn. map_of d ''index'' = Some idx \<and> map_of d ''filename'' = Some fn \<and>
     a' = PDict (AList.update ''url''
            (PStr (''/api/mail/'' @ mail_id @ ''/attachment/'' @ py_str E idx @ ''/'' @ py_str E fn)) d)"
  by (auto simp add: attachment_url_def split: option.splits sum.splits)

lemma fix_attachment_spec:
  assumes "fix_attachment E mail_id a = Inr a'"
  shows "\<exists>idx fn. subscript a ''index'' = Inr idx \<and> subscript a' ''index'' = Inr idx \<and>
           subscript a' ''filename'' = Inr fn \<and>
           subscript a' ''url'' =
             Inr (PStr (''/api/mail/'' @ mail_id @ ''/attachment/'' @ py_str E idx @ ''/'' @ py_str E fn)) \<and>
           (subscript a ''filename'' = Inl (KeyError ''filename'') \<longrightarrow>
              (\<exists>t. subscript a ''type'' = Inr (PStr t) \<and>
                 fn = PStr (''file_'' @ py_str E idx @
                        (case guess_extension E t of
                           None \<Rightarrow> ''.bin''
                         | Some x \<Rightarrow> if x = [] then ''.bin'' else x))))"
proof -
  from assms obtain d where d: "a = PDict d"
    by (cases a) (simp_all add: fix_attachment_def)
  show ?thesis
  proof (cases "truthy (case map_of d ''filename'' of None \<Rightarrow> PNone | Some v \<Rightarrow> v)")
    case True
    with assms d have "attachment_url E mail_id (PDict d) = Inr a'"
      by (simp add: fix_attachment_def)
    from attachment_url_spec [OF this] True show ?thesis
      using d by (auto simp add: update_conv' split: option.splits)
  next
    case False
    with assms d obtain a1 where a1: "default_filename E (PDict d) = Inr a1"
      and u: "attachment_url E mail_id a1 = Inr a'"
      by (auto simp add: fix_attachment_def split: sum.splits)
    from default_filename_spec [OF a1] obtain idx t where
      i: "map_of d ''index'' = Some idx" and t: "map_of d ''type'' = Some (PStr t)" and
      e: "a1 = PDict (AList.update ''filename''
            (PStr (''file_'' @ py_str E idx @
               (case guess_extension E t of None \<Rightarrow> ''.bin'' | Some x \<Rightarrow> if x = [] then ''.bin'' else x))) d)"
      by blast
    let ?fn = "PStr (''file_'' @ py_str E idx @
               (case guess_extension E t of None \<Rightarrow> ''.bin'' | Some x \<Rightarrow> if x = [] then ''.bin'' else x))"
    from attachment_url_spec [OF u [unfolded e]] i have
      a': "a' = PDict (AList.update ''url''
            (PStr (''/api/mail/'' @ mail_id @ ''/attachment/'' @ py_str E idx @ ''/'' @ py_str E ?fn))
            (AList.update ''filename'' ?fn d))"
      by (simp add: update_conv')
    show ?thesis
      apply (rule exI [of _ idx])
      apply (rule exI [of _ ?fn])
      apply (simp only: d a')
      apply (simp add: update_conv' i t)
      done
  qed
qed

text \<open>
  Claim C10: in the single-message response the attachments are those of the stored
  mail, one for one. Each has a \<^verbatim>\<open>filename\<close> and a \<^verbatim>\<open>url\<close> field, the url being
  \<^verbatim>\<open>/api/mail/{mail_id}/attachment/{index}/{filename}\<close> with its own index and
  filename; and an attachment stored without a \<^verbatim>\<open>filename\<close> field is named
  \<^verbatim>\<open>file_{index}{ext}\<close>, where ext is the extension guessed from its \<^verbatim>\<open>type\<close>, or
  \<^verbatim>\<open>.bin\<close> when none is guessed.
\<close>

theorem attachments_named_and_linked:
  assumes "get_mail E st mail_id = (m, st1)"
    and "subscript m ''attachments'' = Inr (PList atts)"
    and "mail E rq mail_id acct st = (Inr resp, st2)"
  shows "\<exists>m' atts'. body resp = Json m' \<and> subscript m' ''attachments'' = Inr (PList atts') \<and>
     length atts' = length atts \<and>
     (\<forall>i<length atts. \<exists>idx fn.
        subscript (atts ! i) ''index'' = Inr idx \<and>
        subscript (atts' ! i) ''index'' = Inr idx \<and>
        subscript (atts' ! i) ''filename'' = Inr fn \<and>
        subscript (atts' ! i) ''url'' =
          Inr (PStr (''/api/mail/'' @ mail_id @ ''/attachment/'' @ py_str E idx @ ''/'' @ py_str E fn)) \<and>
        (subscript (atts ! i) ''filename'' = Inl (KeyError ''filename'') \<longrightarrow>
           (\<exists>t. subscript (atts ! i) ''type'' = Inr (PStr t) \<and>
              fn = PStr (''file_'' @ py_str E idx @
                     (case guess_extension E t of
                        None \<Rightarrow> ''.bin''
                      | Some x \<Rightarrow> if x = [] then ''.bin'' else x)))))"
proof -
  from assms(1,3) obtain mail1 where i: "iso_field ''date'' m = Inr mail1"
    by (auto simp add: mail_def split: sum.splits if_splits)
  from iso_field_other [OF i, of "''attachments''"] assms(2)
  have s: "subscript mail1 ''attachments'' = Inr (PList atts)"
    by simp
  from assms(1,3) i s obtain atts' where
    l: "map_result (fix_attachment E mail_id) atts = Inr atts'" and
    r: "json E (changed_at mail1 ''attachments'' (PList atts')) = Inr resp"
    by (auto simp add: mail_def split: sum.splits if_splits)
  from map_result_all2 [OF l] have
    a: "list_all2 (\<lambda>x y. fix_attachment E mail_id x = Inr y) atts atts'" .
  then have len: "length atts' = length atts"
    by (simp add: list_all2_lengthD)
  have each: "fix_attachment E mail_id (atts ! i) = Inr (atts' ! i)" if "i < length atts" for i
    by (rule list_all2_nthD [OF a that])
  have all: "\<forall>i<length atts. \<exists>idx fn.
        subscript (atts ! i) ''index'' = Inr idx \<and>
        subscript (atts' ! i) ''index'' = Inr idx \<and>
        subscript (atts' ! i) ''filename'' = Inr fn \<and>
        subscript (atts' ! i) ''url'' =
          Inr (PStr (''/api/mail/'' @ mail_id @ ''/attachment/'' @ py_str E idx @ ''/'' @ py_str E fn)) \<and>
        (subscript (atts ! i) ''filename'' = Inl (KeyError ''filename'') \<longrightarrow>
           (\<exists>t. subscript (atts ! i) ''type'' = Inr (PStr t) \<and>
              fn = PStr (''file_'' @ py_str E idx @
                     (case guess_extension E t of
                        None \<Rightarrow> ''.bin''
                      | Some x \<Rightarrow> if x = [] then ''.bin'' else x))))"
    using fix_attachment_spec [OF each] by (intro allI impI)
  have b: "body resp = Json (changed_at mail1 ''attachments'' (PList atts'))"
    using json_answers [OF r] by simp
  from b subscript_changed_at_same [OF s] len all show ?thesis
    by (intro exI [of _ "changed_at mail1 ''attachments'' (PList atts')"] exI [of _ atts'] conjI)
qed

theorem attachments_named_and_linked_witness:
  "\<exists>resp st2 m' atts'. mail mem_env no_request ''m2'' alice mem0 = (Inr resp, st2) \<and>
     body resp = Json m' \<and> subscript m' ''attachments'' = Inr (PList atts') \<and>
     length atts' = 3 \<and>
     map (\<lambda>a. subscript a ''filename'') atts' =
       [Inr (PStr ''file_0.txt''), Inr (PStr ''file_1.bin''), Inr (PStr ''cat.png'')] \<and>
     map (\<lambda>a. subscript a ''url'') atts' =
       [Inr (PStr ''/api/mail/m2/attachment/0/file_0.txt''),
        Inr (PStr ''/api/mail/m2/attachment/1/file_1.bin''),
        Inr (PStr ''/api/mail/m2/attachment/2/cat.png'')]"
proof -
  let ?atts = "[PDict [(''index'', PInt 0), (''type'', PStr ''text/plain'')],
                PDict [(''index'', PInt 1), (''type'', PStr ''application/x-unknown'')],
                PDict [(''index'', PInt 2), (''type'', PStr ''image/png''),
                       (''filename'', PStr ''cat.png'')]]"
  let ?resp = "\<lparr>body = Json alices_mail_response, response_cookies = []\<rparr>"
  have g: "get_mail mem_env mem0 ''m2'' = (alices_mail, mem0)"
    by code_simp
  have s: "subscript alices_mail ''attachments'' = Inr (PList ?atts)"
    by code_simp
  have r: "mail mem_env no_request ''m2'' alice mem0 = (Inr ?resp, mem0)"
    by code_simp
  from attachments_named_and_linked [OF g s r] obtain m' atts' where
    b: "body ?resp = Json m'" and
    a: "subscript m' ''attachments'' = Inr (PList atts')" and
    l: "length atts' = length ?atts"
    by blast
  from b have m': "m' = alices_mail_response"
    by simp
  from a have atts': "atts' =
     [PDict [(''index'', PInt 0), (''type'', PStr ''text/plain''),
             (''filename'', PStr ''file_0.txt''),
             (''url'', PStr ''/api/mail/m2/attachment/0/file_0.txt'')],
      PDict [(''index'', PInt 1), (''type'', PStr ''application/x-unknown''),
             (''filename'', PStr ''file_1.bin''),
             (''url'', PStr ''/api/mail/m2/attachment/1/file_1.bin'')],
      PDict [(''index'', PInt 2), (''type'', PStr ''image/png''),
             (''filename'', PStr ''cat.png''),
             (''url'', PStr ''/api/mail/m2/attachment/2/cat.png'')]]"
    unfolding m' by (simp add: alices_mail_response_def)
  show ?thesis
    apply (rule exI [of _ ?resp])
    apply (rule exI [of _ mem0])
    apply (rule exI [of _ m'])
    apply (rule exI [of _ atts'])
    using r b a l apply (simp add: atts')
    done
qed

end
